theory Spec2Isabelle
  imports Main
begin

section \<open>The miner registry of venus-miner (node/modules/minermanage)\<close>

text \<open>
  A shallow embedding of \<^verbatim>\<open>minermanage.go\<close>. The registry \<^verbatim>\<open>MinerManager\<close> holds a
  slice of \<^verbatim>\<open>dtypes.MinerInfo\<close> and a handle \<^verbatim>\<open>da\<close> to a datastore. Each method is
  a function from the registry before the call to the returned value and the registry
  after it. The mutex \<^verbatim>\<open>lk\<close> is not modelled: the embedding is of one call at a time.
\<close>

subsection \<open>Data\<close>

type_synonym bytes = "char list"

text \<open>
  Go's \<^verbatim>\<open>error\<close> values. \<^verbatim>\<open>datastore.ErrNotFound\<close> and \<^verbatim>\<open>ErrNoDefault\<close> are the two
  sentinels the code names; any other error of a collaborator (store, JSON, address
  codec) is \<open>Err\<close> with its message.
\<close>

datatype error = ErrNotFound | ErrNoDefault | Err string

text \<open>
  Modelled from the spec: \<^verbatim>\<open>address.Address\<close> (package go-address) is not part of
  the sources. It is an opaque identifier with a sentinel undefined value; its canonical
  string rendering and its byte encoding are functions of the codec below.
\<close>

datatype address = Address string

definition Undef :: address where
  "Undef = Address []"

text \<open>
  Modelled from the spec: \<^verbatim>\<open>dtypes.MinerInfo\<close> is not part of the sources. A record
  has an address, the labels id and name, and two connection descriptors (sealer and
  wallet) of one endpoint string and one credential string each. The fields are the
  ones \<^verbatim>\<open>minermanage.go\<close> and \<^verbatim>\<open>cmd/address.go\<close> select.
\<close>

record APIInfo =
  ListenAPI :: string
  Token :: string

record MinerInfo =
  Addr :: address
  Id' :: string
  Name :: string
  Sealer :: APIInfo
  Wallet :: APIInfo

text \<open>
  The collaborators the package calls and the sources do not contain: the address
  codec (\<^verbatim>\<open>String\<close>, \<^verbatim>\<open>Bytes\<close>, \<^verbatim>\<open>NewFromBytes\<close>), \<^verbatim>\<open>encoding/json\<close> on the slice of
  records, and the two methods of \<^verbatim>\<open>dtypes.MetadataDS\<close> that are used. They are
  parameters of every definition. The store is a value of type \<open>'s\<close>; \<open>ds_Get\<close> reads
  it, \<open>ds_Put\<close> returns Go's \<^verbatim>\<open>error\<close> (\<open>None\<close> is \<^verbatim>\<open>nil\<close>) and the store after the
  call, whatever an implementation does to it when it fails.
\<close>

record 's env =
  address_String :: "address \<Rightarrow> string"
  address_Bytes :: "address \<Rightarrow> bytes"
  address_NewFromBytes :: "bytes \<Rightarrow> error + address"
  json_Marshal :: "MinerInfo list \<Rightarrow> error + bytes"
  json_Unmarshal :: "bytes \<Rightarrow> error + MinerInfo list"
  ds_Get :: "'s \<Rightarrow> string \<Rightarrow> error + bytes"
  ds_Put :: "'s \<Rightarrow> string \<Rightarrow> bytes \<Rightarrow> error option \<times> 's"

definition actorKey :: string where
  "actorKey = ''miner-actors''"

definition defaultKey :: string where
  "defaultKey = ''default-actor''"

record 's MinerManager =
  miners :: "MinerInfo list"
  da :: 's

subsection \<open>Construction\<close>

text \<open>
  \<^verbatim>\<open>NewMinerManger\<close>: a get error other than \<^verbatim>\<open>ErrNotFound\<close> is returned; on
  \<^verbatim>\<open>ErrNotFound\<close> the slice stays \<^verbatim>\<open>nil\<close> (the empty list); otherwise the bytes are
  unmarshalled and an unmarshal error is returned. \<open>Inl\<close> is the Go result
  \<^verbatim>\<open>(nil, err)\<close>.
\<close>

definition NewMinerManger :: "'s env \<Rightarrow> 's \<Rightarrow> error + 's MinerManager" where
  "NewMinerManger env ds =
     (case ds_Get env ds actorKey of
        Inl err \<Rightarrow>
          (if err \<noteq> ErrNotFound then Inl err
           else Inr \<lparr>miners = [], da = ds\<rparr>)
      | Inr addrBytes \<Rightarrow>
          (case json_Unmarshal env addrBytes of
             Inl err \<Rightarrow> Inl err
           | Inr ms \<Rightarrow> Inr \<lparr>miners = ms, da = ds\<rparr>))"

subsection \<open>Has and Put\<close>

text \<open>The loop of \<^verbatim>\<open>Has\<close> over \<^verbatim>\<open>m.miners\<close>: true at the first equal string.\<close>

fun Has_range :: "'s env \<Rightarrow> MinerInfo list \<Rightarrow> address \<Rightarrow> bool" where
  "Has_range env [] addr = False"
| "Has_range env (miner # rest) addr =
     (if address_String env (Addr miner) = address_String env addr then True
      else Has_range env rest addr)"

definition Has :: "'s env \<Rightarrow> 's MinerManager \<Rightarrow> address \<Rightarrow> bool" where
  "Has env m addr = Has_range env (miners m) addr"

text \<open>
  \<^verbatim>\<open>Put\<close> returns Go's \<^verbatim>\<open>error\<close> and the registry after the call. \<^verbatim>\<open>m.miners\<close> is
  assigned only on the last line, after both the marshal and the store write returned
  \<^verbatim>\<open>nil\<close>.
\<close>

definition Put :: "'s env \<Rightarrow> 's MinerManager \<Rightarrow> MinerInfo \<Rightarrow> error option \<times> 's MinerManager" where
  "Put env m miner =
     (if Has env m (Addr miner) then (None, m)
      else
        (let newMiner = miners m @ [miner] in
         case json_Marshal env newMiner of
           Inl err \<Rightarrow> (Some err, m)
         | Inr addrBytes \<Rightarrow>
             (case ds_Put env (da m) actorKey addrBytes of
                (Some err, ds') \<Rightarrow> (Some err, m\<lparr>da := ds'\<rparr>)
              | (None, ds') \<Rightarrow> (None, m\<lparr>da := ds', miners := newMiner\<rparr>))))"

subsection \<open>Set\<close>

text \<open>
  The four guarded assignments of \<^verbatim>\<open>Set\<close> to \<^verbatim>\<open>m.miners[k]\<close>, in the order of the
  source; \<open>cur\<close> is \<^verbatim>\<open>m.miners[k]\<close> and \<open>miner\<close> the argument.
\<close>

definition Set_merge :: "MinerInfo \<Rightarrow> MinerInfo \<Rightarrow> MinerInfo" where
  "Set_merge cur miner =
     (let c1 = (if ListenAPI (Sealer miner) \<noteq> [] \<and> ListenAPI (Sealer miner) \<noteq> ListenAPI (Sealer cur)
                then cur\<lparr>Sealer := (Sealer cur)\<lparr>ListenAPI := ListenAPI (Sealer miner)\<rparr>\<rparr> else cur);
          c2 = (if Token (Sealer miner) \<noteq> [] \<and> Token (Sealer miner) \<noteq> Token (Sealer c1)
                then c1\<lparr>Sealer := (Sealer c1)\<lparr>Token := Token (Sealer miner)\<rparr>\<rparr> else c1);
          c3 = (if ListenAPI (Wallet miner) \<noteq> [] \<and> ListenAPI (Wallet miner) \<noteq> ListenAPI (Wallet c2)
                then c2\<lparr>Wallet := (Wallet c2)\<lparr>ListenAPI := ListenAPI (Wallet miner)\<rparr>\<rparr> else c2);
          c4 = (if Token (Wallet miner) \<noteq> [] \<and> Token (Wallet miner) \<noteq> Token (Wallet c3)
                then c3\<lparr>Wallet := (Wallet c3)\<lparr>Token := Token (Wallet miner)\<rparr>\<rparr> else c3)
      in c4)"

text \<open>
  The \<^verbatim>\<open>range\<close> loop of \<^verbatim>\<open>Set\<close> from index \<open>k\<close> on. At the first record with the
  argument's address string the record is merged in place, the whole slice is marshalled
  and written, and the loop ends (\<^verbatim>\<open>return err\<close> or \<^verbatim>\<open>break\<close>); the merged slice stays
  in the registry on every one of these exits.
\<close>

function Set_range :: "'s env \<Rightarrow> 's MinerManager \<Rightarrow> MinerInfo \<Rightarrow> nat \<Rightarrow> error option \<times> 's MinerManager" where
  "Set_range env m miner k =
     (if k < length (miners m) then
        (if address_String env (Addr (miners m ! k)) = address_String env (Addr miner) then
           (let m' = m\<lparr>miners := (miners m)[k := Set_merge (miners m ! k) miner]\<rparr> in
            case json_Marshal env (miners m') of
              Inl err \<Rightarrow> (Some err, m')
            | Inr addrBytes \<Rightarrow>
                (case ds_Put env (da m') actorKey addrBytes of
                   (Some err, ds') \<Rightarrow> (Some err, m'\<lparr>da := ds'\<rparr>)
                 | (None, ds') \<Rightarrow> (None, m'\<lparr>da := ds'\<rparr>)))
         else Set_range env m miner (Suc k))
      else (None, m))"
  by pat_completeness auto
termination
  by (relation "measure (\<lambda>(env, m, miner, k). length (miners m) - k)") auto

declare Set_range.simps [simp del]

definition Set :: "'s env \<Rightarrow> 's MinerManager \<Rightarrow> MinerInfo \<Rightarrow> error option \<times> 's MinerManager" where
  "Set env m miner = Set_range env m miner 0"

subsection \<open>Remove\<close>

fun findAddress :: "'s env \<Rightarrow> address \<Rightarrow> address list \<Rightarrow> bool" where
  "findAddress env addr [] = False"
| "findAddress env addr (a # addrs) =
     (if address_String env a \<noteq> address_String env addr then True
      else findAddress env addr addrs)"

text \<open>The loop of \<^verbatim>\<open>Remove\<close> that builds \<^verbatim>\<open>newMiners\<close> (\<open>acc\<close>) by appending.\<close>

fun Remove_range :: "'s env \<Rightarrow> address list \<Rightarrow> MinerInfo list \<Rightarrow> MinerInfo list \<Rightarrow> MinerInfo list" where
  "Remove_range env addrs newMiners [] = newMiners"
| "Remove_range env addrs newMiners (miner # rest) =
     (if \<not> findAddress env (Addr miner) addrs
      then Remove_range env addrs (newMiners @ [miner]) rest
      else Remove_range env addrs newMiners rest)"

definition Remove :: "'s env \<Rightarrow> 's MinerManager \<Rightarrow> address list \<Rightarrow> error option \<times> 's MinerManager" where
  "Remove env m addrs =
     (let newMiners = Remove_range env addrs [] (miners m) in
      case json_Marshal env newMiners of
        Inl err \<Rightarrow> (Some err, m)
      | Inr addrBytes \<Rightarrow>
          (case ds_Put env (da m) actorKey addrBytes of
             (Some err, ds') \<Rightarrow> (Some err, m\<lparr>da := ds'\<rparr>)
           | (None, ds') \<Rightarrow> (None, m\<lparr>da := ds', miners := newMiners\<rparr>)))"

subsection \<open>The default address\<close>

definition SetDefault :: "'s env \<Rightarrow> 's MinerManager \<Rightarrow> address \<Rightarrow> error option \<times> 's MinerManager" where
  "SetDefault env m addr =
     (case ds_Put env (da m) defaultKey (address_Bytes env addr) of
        (err, ds') \<Rightarrow> (err, m\<lparr>da := ds'\<rparr>))"

text \<open>
  \<^verbatim>\<open>Default\<close>: \<open>Inl err\<close> is the Go result \<^verbatim>\<open>(address.Undef, err)\<close>. Any get error
  enters the branch that reads \<^verbatim>\<open>m.miners[0]\<close>, guarded by the length test.
\<close>

definition Default :: "'s env \<Rightarrow> 's MinerManager \<Rightarrow> (error + address) \<times> 's MinerManager" where
  "Default env m =
     (case ds_Get env (da m) defaultKey of
        Inl err \<Rightarrow>
          (case miners m of
             [] \<Rightarrow> (Inl ErrNoDefault, m)
           | first # rest \<Rightarrow>
               (case SetDefault env m (Addr first) of
                  (Some err', m') \<Rightarrow> (Inl err', m')
                | (None, m') \<Rightarrow> (Inr (Addr first), m')))
      | Inr bs \<Rightarrow> (address_NewFromBytes env bs, m))"

subsection \<open>An in-memory instance of the collaborators\<close>

text \<open>
  Modelled from the spec: the key-value store (\<open>get(key) -> bytes | NotFound\<close>,
  \<open>put(key, bytes) -> ok | error\<close>) and the address codec are collaborators outside
  the sources. The instance below is the simplest one that meets that contract: the
  store is an association list, an address renders as the string it holds, and the
  decoder of the record list knows the empty list only (\<^verbatim>\<open>null\<close> and \<^verbatim>\<open>[]\<close>) and
  rejects every other input. It gives the theorems concrete inputs.
\<close>

type_synonym mem_store = "(string \<times> bytes) list"

definition mem_Get :: "mem_store \<Rightarrow> string \<Rightarrow> error + bytes" where
  "mem_Get s k = (case map_of s k of None \<Rightarrow> Inl ErrNotFound | Some v \<Rightarrow> Inr v)"

definition mem_Put :: "mem_store \<Rightarrow> string \<Rightarrow> bytes \<Rightarrow> error option \<times> mem_store" where
  "mem_Put s k v = (None, (k, v) # filter (\<lambda>kv. fst kv \<noteq> k) s)"

text \<open>A store whose every write fails and changes nothing.\<close>

definition failing_Put :: "mem_store \<Rightarrow> string \<Rightarrow> bytes \<Rightarrow> error option \<times> mem_store" where
  "failing_Put s k v = (Some (Err ''put failed''), s)"

fun plain_String :: "address \<Rightarrow> string" where
  "plain_String (Address s) = s"

definition plain_NewFromBytes :: "bytes \<Rightarrow> error + address" where
  "plain_NewFromBytes bs = (if bs = [] then Inl (Err ''invalid address length'') else Inr (Address bs))"

definition plain_Marshal :: "MinerInfo list \<Rightarrow> error + bytes" where
  "plain_Marshal ms =
     (if ms = [] then Inr ''null''
      else Inr (concat (map (\<lambda>mi. plain_String (Addr mi) @ '','' @ Id' mi @ '','' @ Name mi @ '',''
                  @ ListenAPI (Sealer mi) @ '','' @ Token (Sealer mi) @ '',''
                  @ ListenAPI (Wallet mi) @ '','' @ Token (Wallet mi) @ '';'') ms)))"

definition plain_Unmarshal :: "bytes \<Rightarrow> error + MinerInfo list" where
  "plain_Unmarshal bs =
     (if bs = ''null'' \<or> bs = ''[]'' then Inr [] else Inl (Err ''cannot unmarshal''))"

definition mem_env :: "mem_store env" where
  "mem_env = \<lparr>address_String = plain_String, address_Bytes = plain_String,
              address_NewFromBytes = plain_NewFromBytes,
              json_Marshal = plain_Marshal, json_Unmarshal = plain_Unmarshal,
              ds_Get = mem_Get, ds_Put = mem_Put\<rparr>"

definition failing_env :: "mem_store env" where
  "failing_env = mem_env\<lparr>ds_Put := failing_Put\<rparr>"

text \<open>A record with the given address string and sealer token, every other field empty.\<close>

definition miner_of :: "string \<Rightarrow> string \<Rightarrow> MinerInfo" where
  "miner_of a tok = \<lparr>Addr = Address a, Id' = [], Name = [],
                     Sealer = \<lparr>ListenAPI = [], Token = tok\<rparr>,
                     Wallet = \<lparr>ListenAPI = [], Token = []\<rparr>\<rparr>"

text \<open>A store whose every read fails with an error that is not \<^verbatim>\<open>ErrNotFound\<close>.\<close>

definition broken_Get :: "mem_store \<Rightarrow> string \<Rightarrow> error + bytes" where
  "broken_Get s k = Inl (Err ''i/o timeout'')"

text \<open>A decoder that answers the given list, whatever the bytes.\<close>

definition fixed_Unmarshal :: "MinerInfo list \<Rightarrow> bytes \<Rightarrow> error + MinerInfo list" where
  "fixed_Unmarshal ms bs = Inr ms"

section \<open>Properties\<close>

subsection \<open>The loops as list operations\<close>

lemma Has_range_iff:
  "Has_range env ms addr \<longleftrightarrow> (\<exists>mi\<in>set ms. address_String env (Addr mi) = address_String env addr)"
  by (induction ms) auto

lemma Has_iff:
  "Has env m addr \<longleftrightarrow> (\<exists>mi\<in>set (miners m). address_String env (Addr mi) = address_String env addr)"
  by (simp add: Has_def Has_range_iff)

lemma Set_range_no_match:
  "(\<forall>i. k \<le> i \<and> i < length (miners m) \<longrightarrow>
        address_String env (Addr (miners m ! i)) \<noteq> address_String env (Addr miner))
   \<Longrightarrow> Set_range env m miner k = (None, m)"
proof (induction env m miner k rule: Set_range.induct)
  case (1 env m miner k)
  show ?case
  proof (cases "k < length (miners m)")
    case True
    with "1.prems" have ne: "address_String env (Addr (miners m ! k)) \<noteq> address_String env (Addr miner)"
      by simp
    from "1.prems" have "\<forall>i. Suc k \<le> i \<and> i < length (miners m) \<longrightarrow>
        address_String env (Addr (miners m ! i)) \<noteq> address_String env (Addr miner)"
      by simp
    with "1.IH" True ne have "Set_range env m miner (Suc k) = (None, m)" by blast
    with True ne show ?thesis by (subst Set_range.simps) simp
  next
    case False
    then show ?thesis by (subst Set_range.simps) simp
  qed
qed

lemma Set_range_first_match:
  "k \<le> j \<Longrightarrow> j < length (miners m) \<Longrightarrow>
   address_String env (Addr (miners m ! j)) = address_String env (Addr miner) \<Longrightarrow>
   (\<forall>i. k \<le> i \<and> i < j \<longrightarrow>
        address_String env (Addr (miners m ! i)) \<noteq> address_String env (Addr miner)) \<Longrightarrow>
   Set_range env m miner k =
     (case json_Marshal env ((miners m)[j := Set_merge (miners m ! j) miner]) of
        Inl err \<Rightarrow> (Some err, m\<lparr>miners := (miners m)[j := Set_merge (miners m ! j) miner]\<rparr>)
      | Inr addrBytes \<Rightarrow>
          (fst (ds_Put env (da m) actorKey addrBytes),
           m\<lparr>miners := (miners m)[j := Set_merge (miners m ! j) miner],
             da := snd (ds_Put env (da m) actorKey addrBytes)\<rparr>))"
proof (induction env m miner k rule: Set_range.induct)
  case (1 env m miner k)
  show ?case
  proof (cases "k = j")
    case True
    with "1.prems" show ?thesis
      by (subst Set_range.simps) (auto simp: Let_def split: sum.splits prod.splits option.splits)
  next
    case False
    with "1.prems" have lt: "k < j" and kl: "k < length (miners m)" by simp_all
    with "1.prems" have ne: "address_String env (Addr (miners m ! k)) \<noteq> address_String env (Addr miner)"
      by simp
    from "1.prems" lt have "\<forall>i. Suc k \<le> i \<and> i < j \<longrightarrow>
        address_String env (Addr (miners m ! i)) \<noteq> address_String env (Addr miner)"
      by simp
    with "1.IH"[OF kl ne] "1.prems" lt have "Set_range env m miner (Suc k) = 
     (case json_Marshal env ((miners m)[j := Set_merge (miners m ! j) miner]) of
        Inl err \<Rightarrow> (Some err, m\<lparr>miners := (miners m)[j := Set_merge (miners m ! j) miner]\<rparr>)
      | Inr addrBytes \<Rightarrow>
          (fst (ds_Put env (da m) actorKey addrBytes),
           m\<lparr>miners := (miners m)[j := Set_merge (miners m ! j) miner],
             da := snd (ds_Put env (da m) actorKey addrBytes)\<rparr>))" by simp
    with kl ne show ?thesis by (subst Set_range.simps) simp
  qed
qed

lemma Set_range_miners:
  "k \<le> j \<Longrightarrow> j < length (miners m) \<Longrightarrow>
   address_String env (Addr (miners m ! j)) = address_String env (Addr miner) \<Longrightarrow>
   (\<forall>i. k \<le> i \<and> i < j \<longrightarrow>
        address_String env (Addr (miners m ! i)) \<noteq> address_String env (Addr miner)) \<Longrightarrow>
   miners (snd (Set_range env m miner k)) = (miners m)[j := Set_merge (miners m ! j) miner]"
  by (simp add: Set_range_first_match split: sum.splits)

lemma Set_merge_fields:
  "Set_merge cur miner =
     \<lparr>Addr = Addr cur, Id' = Id' cur, Name = Name cur,
      Sealer = \<lparr>ListenAPI = (if ListenAPI (Sealer miner) \<noteq> [] \<and> ListenAPI (Sealer miner) \<noteq> ListenAPI (Sealer cur)
                              then ListenAPI (Sealer miner) else ListenAPI (Sealer cur)),
                Token = (if Token (Sealer miner) \<noteq> [] \<and> Token (Sealer miner) \<noteq> Token (Sealer cur)
                          then Token (Sealer miner) else Token (Sealer cur))\<rparr>,
      Wallet = \<lparr>ListenAPI = (if ListenAPI (Wallet miner) \<noteq> [] \<and> ListenAPI (Wallet miner) \<noteq> ListenAPI (Wallet cur)
                              then ListenAPI (Wallet miner) else ListenAPI (Wallet cur)),
                Token = (if Token (Wallet miner) \<noteq> [] \<and> Token (Wallet miner) \<noteq> Token (Wallet cur)
                          then Token (Wallet miner) else Token (Wallet cur))\<rparr>\<rparr>"
  by (simp add: Set_merge_def Let_def)

lemma findAddress_iff:
  "findAddress env addr addrs \<longleftrightarrow>
     (\<exists>a\<in>set addrs. address_String env a \<noteq> address_String env addr)"
  by (induction addrs) auto

lemma Remove_range_filter:
  "Remove_range env addrs acc ms =
     acc @ filter (\<lambda>mi. \<forall>a\<in>set addrs. address_String env a = address_String env (Addr mi)) ms"
  by (induction ms arbitrary: acc) (auto simp: findAddress_iff)

subsection \<open>Construction\<close>

text \<open>
  C6. \<^verbatim>\<open>NewMinerManger\<close> reads the key \<^verbatim>\<open>miner-actors\<close>. When the store answers
  \<^verbatim>\<open>ErrNotFound\<close> the result is a registry with the empty list over the same store and
  no error. When the key is present and its bytes do not unmarshal, the result is the
  unmarshal error and no registry.
\<close>

theorem NewMinerManger_absent_or_malformed:
  "(ds_Get env ds actorKey = Inl ErrNotFound \<longrightarrow>
      NewMinerManger env ds = Inr \<lparr>miners = [], da = ds\<rparr>) \<and>
   (ds_Get env ds actorKey = Inr bs \<and> json_Unmarshal env bs = Inl err \<longrightarrow>
      NewMinerManger env ds = Inl err)"
  by (simp add: NewMinerManger_def)

theorem NewMinerManger_absent_or_malformed_witness:
  "ds_Get mem_env [] actorKey = Inl ErrNotFound \<and>
   NewMinerManger mem_env [] = Inr \<lparr>miners = [], da = []\<rparr> \<and>
   ds_Get mem_env [(actorKey, ''{'')] actorKey = Inr ''{'' \<and>
   json_Unmarshal mem_env ''{'' = Inl (Err ''cannot unmarshal'') \<and>
   NewMinerManger mem_env [(actorKey, ''{'')] = Inl (Err ''cannot unmarshal'')"
  using NewMinerManger_absent_or_malformed [of mem_env "[]"]
    NewMinerManger_absent_or_malformed [of mem_env "[(actorKey, ''{'')]" "''{''" "Err ''cannot unmarshal''"]
  by (simp add: mem_env_def mem_Get_def plain_Unmarshal_def)

subsection \<open>Set\<close>

text \<open>
  C7. When no record of the registry has the address string of the argument, \<^verbatim>\<open>Set\<close>
  returns \<^verbatim>\<open>nil\<close> and the registry it was called on: the list is the same and so is the
  store, for every store implementation, so that no write was made.
\<close>

theorem Set_absent_noop:
  assumes "\<forall>mi\<in>set (miners m). address_String env (Addr mi) \<noteq> address_String env (Addr miner)"
  shows "Set env m miner = (None, m)"
  unfolding Set_def using assms by (intro Set_range_no_match) simp

theorem Set_absent_noop_witness:
  "address_String mem_env (Addr (miner_of ''f01'' ''T1''))
     \<noteq> address_String mem_env (Addr (miner_of ''f02'' ''T2'')) \<and>
   Set mem_env \<lparr>miners = [miner_of ''f01'' ''T1''], da = []\<rparr> (miner_of ''f02'' ''T2'')
     = (None, \<lparr>miners = [miner_of ''f01'' ''T1''], da = []\<rparr>)"
  using Set_absent_noop [of "\<lparr>miners = [miner_of ''f01'' ''T1''], da = []\<rparr>" mem_env "miner_of ''f02'' ''T2''"]
  by (simp add: mem_env_def miner_of_def)

text \<open>
  C2. Let \<open>j\<close> be the first index whose record has the address string of the argument
  and \<open>cur\<close> that record. After \<^verbatim>\<open>Set\<close>, whatever the marshal and the store write
  return, the list differs from the old one at index \<open>j\<close> only, and the record there
  has the address, id and name of \<open>cur\<close>; each of the four fields sealer endpoint, sealer
  token, wallet endpoint and wallet token is the incoming value if that value is non-empty
  and differs from the one of \<open>cur\<close>, and the one of \<open>cur\<close> otherwise. So an empty
  incoming field erases nothing, and the id, name and address of the argument are not
  stored.
\<close>

theorem Set_merges_four_fields:
  assumes "j < length (miners m)"
    and "address_String env (Addr (miners m ! j)) = address_String env (Addr miner)"
    and "\<forall>i<j. address_String env (Addr (miners m ! i)) \<noteq> address_String env (Addr miner)"
    and "cur = miners m ! j"
  shows "miners (snd (Set env m miner)) = (miners m)[j :=
     \<lparr>Addr = Addr cur, Id' = Id' cur, Name = Name cur,
      Sealer = \<lparr>ListenAPI = (if ListenAPI (Sealer miner) \<noteq> [] \<and> ListenAPI (Sealer miner) \<noteq> ListenAPI (Sealer cur)
                              then ListenAPI (Sealer miner) else ListenAPI (Sealer cur)),
                Token = (if Token (Sealer miner) \<noteq> [] \<and> Token (Sealer miner) \<noteq> Token (Sealer cur)
                          then Token (Sealer miner) else Token (Sealer cur))\<rparr>,
      Wallet = \<lparr>ListenAPI = (if ListenAPI (Wallet miner) \<noteq> [] \<and> ListenAPI (Wallet miner) \<noteq> ListenAPI (Wallet cur)
                              then ListenAPI (Wallet miner) else ListenAPI (Wallet cur)),
                Token = (if Token (Wallet miner) \<noteq> [] \<and> Token (Wallet miner) \<noteq> Token (Wallet cur)
                          then Token (Wallet miner) else Token (Wallet cur))\<rparr>\<rparr>]"
proof -
  have "miners (snd (Set_range env m miner 0)) = (miners m)[j := Set_merge (miners m ! j) miner]"
    using assms(1-3) by (intro Set_range_miners) simp_all
  then show ?thesis
    unfolding Set_def assms(4) by (simp only: Set_merge_fields)
qed

theorem Set_merges_four_fields_witness:
  "miners (snd (Set mem_env \<lparr>miners = [miner_of ''f01'' ''T1''], da = []\<rparr> (miner_of ''f01'' [])))
     = [miner_of ''f01'' ''T1''] \<and>
   miners (snd (Set mem_env \<lparr>miners = [miner_of ''f01'' ''T1''], da = []\<rparr> (miner_of ''f01'' ''T2'')))
     = [miner_of ''f01'' ''T2'']"
  using Set_merges_four_fields [of 0 "\<lparr>miners = [miner_of ''f01'' ''T1''], da = []\<rparr>" mem_env
          "miner_of ''f01'' []" "miner_of ''f01'' ''T1''"]
    Set_merges_four_fields [of 0 "\<lparr>miners = [miner_of ''f01'' ''T1''], da = []\<rparr>" mem_env
          "miner_of ''f01'' ''T2''" "miner_of ''f01'' ''T1''"]
  by (simp add: mem_env_def miner_of_def)

text \<open>
  C8. When \<^verbatim>\<open>Set\<close> finds the record at index \<open>j\<close>, the merged list marshals and the
  store write returns an error, \<^verbatim>\<open>Set\<close> returns that error and the registry keeps the
  merged record at index \<open>j\<close>: the merge is not undone.
\<close>

theorem Set_write_failure_keeps_merge:
  assumes "j < length (miners m)"
    and "address_String env (Addr (miners m ! j)) = address_String env (Addr miner)"
    and "\<forall>i<j. address_String env (Addr (miners m ! i)) \<noteq> address_String env (Addr miner)"
    and "json_Marshal env ((miners m)[j := Set_merge (miners m ! j) miner]) = Inr bs"
    and "ds_Put env (da m) actorKey bs = (Some err, ds')"
  shows "Set env m miner =
           (Some err, m\<lparr>miners := (miners m)[j := Set_merge (miners m ! j) miner], da := ds'\<rparr>)"
proof -
  have "Set_range env m miner 0 =
     (case json_Marshal env ((miners m)[j := Set_merge (miners m ! j) miner]) of
        Inl err \<Rightarrow> (Some err, m\<lparr>miners := (miners m)[j := Set_merge (miners m ! j) miner]\<rparr>)
      | Inr addrBytes \<Rightarrow>
          (fst (ds_Put env (da m) actorKey addrBytes),
           m\<lparr>miners := (miners m)[j := Set_merge (miners m ! j) miner],
             da := snd (ds_Put env (da m) actorKey addrBytes)\<rparr>))"
    using assms(1-3) by (intro Set_range_first_match) simp_all
  then show ?thesis
    unfolding Set_def using assms(4,5) by simp
qed

theorem Set_write_failure_keeps_merge_witness:
  "Set failing_env \<lparr>miners = [miner_of ''f01'' ''T1''], da = []\<rparr> (miner_of ''f01'' ''T2'')
     = (Some (Err ''put failed''), \<lparr>miners = [miner_of ''f01'' ''T2''], da = []\<rparr>)"
  using Set_write_failure_keeps_merge [of 0 "\<lparr>miners = [miner_of ''f01'' ''T1''], da = []\<rparr>" failing_env
          "miner_of ''f01'' ''T2''" "''f01,,,,T2,,;''" "Err ''put failed''" "[]"]
  by (simp add: failing_env_def mem_env_def miner_of_def Set_merge_def plain_Marshal_def failing_Put_def)

subsection \<open>Put\<close>

lemma filter_none:
  "\<forall>y\<in>set xs. f y \<noteq> v \<Longrightarrow> filter (\<lambda>y. f y = v) xs = []"
  by (simp add: filter_empty_conv)

text \<open>
  C3. Let the address string of the argument be that of no record of the registry. If
  marshalling the old list with the record appended fails, \<^verbatim>\<open>Put\<close> returns that error
  and the registry unchanged. If the store write fails, \<^verbatim>\<open>Put\<close> returns that error and
  the in-memory list is the old one. If the write succeeds, \<^verbatim>\<open>Put\<close> returns \<^verbatim>\<open>nil\<close> and
  the in-memory list is the old list with the record appended.
\<close>

theorem Put_absent_outcomes:
  assumes "\<forall>mi\<in>set (miners m). address_String env (Addr mi) \<noteq> address_String env (Addr miner)"
  shows "(json_Marshal env (miners m @ [miner]) = Inl err \<longrightarrow> Put env m miner = (Some err, m)) \<and>
         (json_Marshal env (miners m @ [miner]) = Inr bs \<and>
          ds_Put env (da m) actorKey bs = (Some err, ds') \<longrightarrow>
            fst (Put env m miner) = Some err \<and> miners (snd (Put env m miner)) = miners m) \<and>
         (json_Marshal env (miners m @ [miner]) = Inr bs \<and>
          ds_Put env (da m) actorKey bs = (None, ds') \<longrightarrow>
            Put env m miner = (None, m\<lparr>da := ds', miners := miners m @ [miner]\<rparr>))"
proof -
  from assms have "\<not> Has env m (Addr miner)" by (simp add: Has_iff)
  then show ?thesis by (simp add: Put_def Let_def)
qed

theorem Put_absent_outcomes_witness:
  "Put (mem_env\<lparr>json_Marshal := \<lambda>ms. Inl (Err ''unsupported value'')\<rparr>)
       \<lparr>miners = [miner_of ''f01'' ''T1''], da = []\<rparr> (miner_of ''f02'' ''T2'')
     = (Some (Err ''unsupported value''), \<lparr>miners = [miner_of ''f01'' ''T1''], da = []\<rparr>) \<and>
   fst (Put failing_env \<lparr>miners = [miner_of ''f01'' ''T1''], da = []\<rparr> (miner_of ''f02'' ''T2''))
     = Some (Err ''put failed'') \<and>
   miners (snd (Put failing_env \<lparr>miners = [miner_of ''f01'' ''T1''], da = []\<rparr> (miner_of ''f02'' ''T2'')))
     = [miner_of ''f01'' ''T1''] \<and>
   Put mem_env \<lparr>miners = [miner_of ''f01'' ''T1''], da = []\<rparr> (miner_of ''f02'' ''T2'')
     = (None, \<lparr>miners = [miner_of ''f01'' ''T1'', miner_of ''f02'' ''T2''],
               da = [(actorKey, ''f01,,,,T1,,;f02,,,,T2,,;'')]\<rparr>)"
  using Put_absent_outcomes [of "\<lparr>miners = [miner_of ''f01'' ''T1''], da = []\<rparr>"
          "mem_env\<lparr>json_Marshal := \<lambda>ms. Inl (Err ''unsupported value'')\<rparr>" "miner_of ''f02'' ''T2''"
          "Err ''unsupported value''"]
    Put_absent_outcomes [of "\<lparr>miners = [miner_of ''f01'' ''T1''], da = []\<rparr>" failing_env
          "miner_of ''f02'' ''T2''" "Err ''put failed''" "''f01,,,,T1,,;f02,,,,T2,,;''" "[]"]
    Put_absent_outcomes [of "\<lparr>miners = [miner_of ''f01'' ''T1''], da = []\<rparr>" mem_env
          "miner_of ''f02'' ''T2''" _ "''f01,,,,T1,,;f02,,,,T2,,;''" "[(actorKey, ''f01,,,,T1,,;f02,,,,T2,,;'')]"]
  by (simp add: failing_env_def mem_env_def miner_of_def plain_Marshal_def failing_Put_def mem_Put_def)

text \<open>
  C4, as amended. In every registry that has a record with the address string of the
  argument, \<^verbatim>\<open>Put\<close> returns \<^verbatim>\<open>nil\<close> and the registry it was called on, store included,
  for every store implementation: it writes nothing. In a registry with at most one
  record of the argument's address string, after a first \<^verbatim>\<open>Put\<close> of a record that
  returned \<^verbatim>\<open>nil\<close>, a second \<^verbatim>\<open>Put\<close> of the same record returns \<^verbatim>\<open>nil\<close>, leaves list
  and store as the first call left them, and the list has exactly one record with that
  address string.
\<close>

theorem Put_idempotent:
  "((\<exists>mi\<in>set (miners m). address_String env (Addr mi) = address_String env (Addr miner)) \<longrightarrow>
      Put env m miner = (None, m)) \<and>
   (length (filter (\<lambda>mi. address_String env (Addr mi) = address_String env (Addr miner)) (miners m)) \<le> 1 \<and>
    Put env m miner = (None, m1) \<longrightarrow>
      Put env m1 miner = (None, m1) \<and>
      length (filter (\<lambda>mi. address_String env (Addr mi) = address_String env (Addr miner)) (miners m1)) = 1)"
proof (intro conjI impI)
  assume "\<exists>mi\<in>set (miners m). address_String env (Addr mi) = address_String env (Addr miner)"
  then show "Put env m miner = (None, m)" by (simp add: Put_def Has_iff)
next
  assume a: "length (filter (\<lambda>mi. address_String env (Addr mi) = address_String env (Addr miner)) (miners m)) \<le> 1 \<and>
    Put env m miner = (None, m1)"
  have has1: "Has env m1 (Addr miner)"
    using a by (auto simp: Put_def Let_def Has_iff split: if_splits sum.splits prod.splits option.splits)
  then show "Put env m1 miner = (None, m1)" by (simp add: Put_def)
  show "length (filter (\<lambda>mi. address_String env (Addr mi) = address_String env (Addr miner)) (miners m1)) = 1"
  proof (cases "Has env m (Addr miner)")
    case True
    with a have same: "m1 = m" by (simp add: Put_def)
    from True have "filter (\<lambda>mi. address_String env (Addr mi) = address_String env (Addr miner)) (miners m) \<noteq> []"
      by (simp add: Has_iff filter_empty_conv)
    then have "1 \<le> length (filter (\<lambda>mi. address_String env (Addr mi) = address_String env (Addr miner)) (miners m))"
      by (simp add: Suc_le_eq)
    with a same show ?thesis by simp
  next
    case False
    with a have "miners m1 = miners m @ [miner]"
      by (auto simp: Put_def Let_def split: sum.splits prod.splits option.splits)
    moreover from False have "filter (\<lambda>mi. address_String env (Addr mi) = address_String env (Addr miner)) (miners m) = []"
      by (intro filter_none) (simp add: Has_iff)
    ultimately show ?thesis by simp
  qed
qed

theorem Put_idempotent_witness:
  "Put mem_env \<lparr>miners = [miner_of ''f01'' ''T1''], da = []\<rparr> (miner_of ''f01'' ''T2'')
     = (None, \<lparr>miners = [miner_of ''f01'' ''T1''], da = []\<rparr>) \<and>
   Put mem_env \<lparr>miners = [], da = []\<rparr> (miner_of ''f01'' ''T1'')
     = (None, \<lparr>miners = [miner_of ''f01'' ''T1''], da = [(actorKey, ''f01,,,,T1,,;'')]\<rparr>) \<and>
   Put mem_env \<lparr>miners = [miner_of ''f01'' ''T1''], da = [(actorKey, ''f01,,,,T1,,;'')]\<rparr> (miner_of ''f01'' ''T1'')
     = (None, \<lparr>miners = [miner_of ''f01'' ''T1''], da = [(actorKey, ''f01,,,,T1,,;'')]\<rparr>) \<and>
   length (filter (\<lambda>mi. address_String mem_env (Addr mi) = address_String mem_env (Addr (miner_of ''f01'' ''T1'')))
             [miner_of ''f01'' ''T1'']) = 1"
  using Put_idempotent [of "\<lparr>miners = [miner_of ''f01'' ''T1''], da = []\<rparr>" mem_env "miner_of ''f01'' ''T2''"]
    Put_idempotent [of "\<lparr>miners = [], da = []\<rparr>" mem_env "miner_of ''f01'' ''T1''"
       "\<lparr>miners = [miner_of ''f01'' ''T1''], da = [(actorKey, ''f01,,,,T1,,;'')]\<rparr>"]
  by (simp add: mem_env_def miner_of_def Put_def Has_def plain_Marshal_def mem_Put_def)

text \<open>
  C4, as stated for every registry state, fails in two ways. \<^verbatim>\<open>NewMinerManger\<close> keeps
  the list the decoder returns, duplicates included: on the list of two records \<open>f01\<close>
  two calls of \<^verbatim>\<open>Put\<close> with \<open>f01\<close> both return \<^verbatim>\<open>nil\<close> and change nothing, and the
  list has two records of that address, not one. And over a store whose write fails, two
  calls of \<^verbatim>\<open>Put\<close> on the empty registry both reach the write and return its error, and
  the list has no record of that address.
\<close>

theorem Put_twice_counterexample:
  "NewMinerManger (mem_env\<lparr>json_Unmarshal := fixed_Unmarshal [miner_of ''f01'' [], miner_of ''f01'' []]\<rparr>)
       [(actorKey, ''x'')]
     = Inr \<lparr>miners = [miner_of ''f01'' [], miner_of ''f01'' []], da = [(actorKey, ''x'')]\<rparr> \<and>
   Put mem_env
       (snd (Put mem_env \<lparr>miners = [miner_of ''f01'' [], miner_of ''f01'' []], da = [(actorKey, ''x'')]\<rparr>
               (miner_of ''f01'' [])))
       (miner_of ''f01'' [])
     = (None, \<lparr>miners = [miner_of ''f01'' [], miner_of ''f01'' []], da = [(actorKey, ''x'')]\<rparr>) \<and>
   length (filter (\<lambda>mi. address_String mem_env (Addr mi) = address_String mem_env (Addr (miner_of ''f01'' [])))
             [miner_of ''f01'' [], miner_of ''f01'' []]) = 2 \<and>
   Put failing_env (snd (Put failing_env \<lparr>miners = [], da = []\<rparr> (miner_of ''f01'' []))) (miner_of ''f01'' [])
     = (Some (Err ''put failed''), \<lparr>miners = [], da = []\<rparr>)"
  by (simp add: NewMinerManger_def Put_def Has_def mem_env_def failing_env_def mem_Get_def
        fixed_Unmarshal_def miner_of_def plain_Marshal_def failing_Put_def actorKey_def)

subsection \<open>Remove\<close>

text \<open>
  C1. The claim is that \<^verbatim>\<open>Remove\<close> keeps the records whose address is not in the removal
  set, so that removing \<open>[A]\<close> from \<open>[A, B, C]\<close> leaves \<open>B\<close> and \<open>C\<close>. The code does
  otherwise: \<^verbatim>\<open>findAddress\<close> answers true at the first element of the removal set that
  differs from the address, and \<^verbatim>\<open>Remove\<close> keeps a record when the answer is false. On
  the list of the records \<open>f01\<close>, \<open>f02\<close>, \<open>f03\<close> and the removal set \<open>[f01]\<close> the
  call succeeds and the list, in memory and in the store, is the record \<open>f01\<close> alone.
\<close>

theorem Remove_listed_address_survives:
  "Remove mem_env \<lparr>miners = [miner_of ''f01'' [], miner_of ''f02'' [], miner_of ''f03'' []], da = []\<rparr>
          [Address ''f01'']
     = (None, \<lparr>miners = [miner_of ''f01'' []], da = [(actorKey, ''f01,,,,,,;'')]\<rparr>)"
  by (simp add: Remove_def mem_env_def miner_of_def plain_Marshal_def mem_Put_def)

text \<open>
  C9. \<^verbatim>\<open>Remove\<close> as implemented. The list it builds holds, in their order, exactly the
  records whose address string equals that of every element of the removal set; when
  that list marshals and the write succeeds, it becomes the in-memory list and its bytes
  are what was written. With the empty removal set every record is kept; with the
  removal set \<open>[A]\<close> the records with the address string of \<open>A\<close> are kept and the
  others dropped; with two elements of different address strings in the removal set no
  record is kept, and when the write succeeds the in-memory list is empty and the empty
  list is what was written.
\<close>

theorem Remove_as_implemented:
  "(json_Marshal env (filter (\<lambda>mi. \<forall>a\<in>set addrs. address_String env a = address_String env (Addr mi)) (miners m)) = Inr bs \<and>
    ds_Put env (da m) actorKey bs = (None, ds') \<longrightarrow>
      Remove env m addrs =
        (None, m\<lparr>da := ds', miners := filter (\<lambda>mi. \<forall>a\<in>set addrs. address_String env a = address_String env (Addr mi)) (miners m)\<rparr>)) \<and>
   (addrs = [] \<longrightarrow> Remove_range env addrs [] (miners m) = miners m) \<and>
   (addrs = [A] \<longrightarrow>
      Remove_range env addrs [] (miners m) =
        filter (\<lambda>mi. address_String env (Addr mi) = address_String env A) (miners m)) \<and>
   ((\<exists>a\<in>set addrs. \<exists>b\<in>set addrs. address_String env a \<noteq> address_String env b) \<longrightarrow>
      Remove_range env addrs [] (miners m) = [] \<and>
      (json_Marshal env [] = Inr bs \<and> ds_Put env (da m) actorKey bs = (None, ds') \<longrightarrow>
         Remove env m addrs = (None, m\<lparr>da := ds', miners := []\<rparr>)))"
proof (intro conjI impI)
  assume "json_Marshal env (filter (\<lambda>mi. \<forall>a\<in>set addrs. address_String env a = address_String env (Addr mi)) (miners m)) = Inr bs \<and>
    ds_Put env (da m) actorKey bs = (None, ds')"
  then show "Remove env m addrs =
        (None, m\<lparr>da := ds', miners := filter (\<lambda>mi. \<forall>a\<in>set addrs. address_String env a = address_String env (Addr mi)) (miners m)\<rparr>)"
    by (simp add: Remove_def Remove_range_filter)
next
  assume "addrs = []"
  then show "Remove_range env addrs [] (miners m) = miners m"
    by (simp add: Remove_range_filter)
next
  assume "addrs = [A]"
  then show "Remove_range env addrs [] (miners m) =
        filter (\<lambda>mi. address_String env (Addr mi) = address_String env A) (miners m)"
    by (simp add: Remove_range_filter eq_commute)
next
  assume two: "\<exists>a\<in>set addrs. \<exists>b\<in>set addrs. address_String env a \<noteq> address_String env b"
  then have none: "\<And>mi. \<not> (\<forall>a\<in>set addrs. address_String env a = address_String env (Addr mi))"
    by metis
  have "filter (\<lambda>mi. \<forall>a\<in>set addrs. address_String env a = address_String env (Addr mi)) (miners m) = []"
    by (intro filter_False ballI) (rule none)
  then show empty: "Remove_range env addrs [] (miners m) = []"
    by (simp only: Remove_range_filter append_Nil)
  assume "json_Marshal env [] = Inr bs \<and> ds_Put env (da m) actorKey bs = (None, ds')"
  with empty show "Remove env m addrs = (None, m\<lparr>da := ds', miners := []\<rparr>)"
    by (simp add: Remove_def)
qed

theorem Remove_as_implemented_witness:
  "Remove_range mem_env [] [] [miner_of ''f01'' [], miner_of ''f02'' [], miner_of ''f03'' []]
     = [miner_of ''f01'' [], miner_of ''f02'' [], miner_of ''f03'' []] \<and>
   Remove_range mem_env [Address ''f02''] [] [miner_of ''f01'' [], miner_of ''f02'' [], miner_of ''f03'' []]
     = [miner_of ''f02'' []] \<and>
   Remove mem_env \<lparr>miners = [miner_of ''f01'' [], miner_of ''f02'' [], miner_of ''f03'' []], da = []\<rparr>
          [Address ''f02'']
     = (None, \<lparr>miners = [miner_of ''f02'' []], da = [(actorKey, ''f02,,,,,,;'')]\<rparr>) \<and>
   Remove mem_env \<lparr>miners = [miner_of ''f01'' [], miner_of ''f02'' [], miner_of ''f03'' []], da = []\<rparr>
          [Address ''f01'', Address ''f02'']
     = (None, \<lparr>miners = [], da = [(actorKey, ''null'')]\<rparr>)"
  using Remove_as_implemented [of mem_env "[]"
          "\<lparr>miners = [miner_of ''f01'' [], miner_of ''f02'' [], miner_of ''f03'' []], da = []\<rparr>"]
    Remove_as_implemented [of mem_env "[Address ''f02'']"
          "\<lparr>miners = [miner_of ''f01'' [], miner_of ''f02'' [], miner_of ''f03'' []], da = []\<rparr>"
          "''f02,,,,,,;''" "[(actorKey, ''f02,,,,,,;'')]" "Address ''f02''"]
    Remove_as_implemented [of mem_env "[Address ''f01'', Address ''f02'']"
          "\<lparr>miners = [miner_of ''f01'' [], miner_of ''f02'' [], miner_of ''f03'' []], da = []\<rparr>"
          "''null''" "[(actorKey, ''null'')]"]
  by (simp add: mem_env_def miner_of_def plain_Marshal_def mem_Put_def)

subsection \<open>The default address\<close>



text \<open>
  C10. Whatever error the read of the key \<^verbatim>\<open>default-actor\<close> returns, \<^verbatim>\<open>Default\<close> does
  what it does on \<^verbatim>\<open>ErrNotFound\<close>: \<^verbatim>\<open>ErrNoDefault\<close> on the empty list, and otherwise the
  write of the first record's address, whose error or else the address is returned. The
  result does not depend on the read's error, which is never returned.
\<close>

theorem Default_any_get_error:
  assumes "ds_Get env (da m) defaultKey = Inl e"
  shows "Default env m = Default (env\<lparr>ds_Get := \<lambda>s k. Inl ErrNotFound\<rparr>) m \<and>
         Default env m =
           (case miners m of
              [] \<Rightarrow> (Inl ErrNoDefault, m)
            | first # rest \<Rightarrow>
                (case ds_Put env (da m) defaultKey (address_Bytes env (Addr first)) of
                   (Some err', ds') \<Rightarrow> (Inl err', m\<lparr>da := ds'\<rparr>)
                 | (None, ds') \<Rightarrow> (Inr (Addr first), m\<lparr>da := ds'\<rparr>)))"
  using assms by (simp add: Default_def SetDefault_def split: list.splits prod.splits option.splits)

theorem Default_any_get_error_witness:
  "ds_Get (mem_env\<lparr>ds_Get := broken_Get\<rparr>) [(defaultKey, ''f02'')] defaultKey = Inl (Err ''i/o timeout'') \<and>
   Default (mem_env\<lparr>ds_Get := broken_Get\<rparr>)
       \<lparr>miners = [miner_of ''f01'' [], miner_of ''f02'' []], da = [(defaultKey, ''f02'')]\<rparr>
     = (Inr (Address ''f01''),
        \<lparr>miners = [miner_of ''f01'' [], miner_of ''f02'' []], da = [(defaultKey, ''f01'')]\<rparr>) \<and>
   Default (mem_env\<lparr>ds_Get := broken_Get\<rparr>) \<lparr>miners = [], da = [(defaultKey, ''f02'')]\<rparr>
     = (Inl ErrNoDefault, \<lparr>miners = [], da = [(defaultKey, ''f02'')]\<rparr>)"
  using Default_any_get_error [of "mem_env\<lparr>ds_Get := broken_Get\<rparr>"
          "\<lparr>miners = [miner_of ''f01'' [], miner_of ''f02'' []], da = [(defaultKey, ''f02'')]\<rparr>"
          "Err ''i/o timeout''", THEN conjunct2]
    Default_any_get_error [of "mem_env\<lparr>ds_Get := broken_Get\<rparr>"
          "\<lparr>miners = [], da = [(defaultKey, ''f02'')]\<rparr>" "Err ''i/o timeout''", THEN conjunct2]
  by (simp add: mem_env_def miner_of_def broken_Get_def mem_Put_def)

subsection \<open>At most one record per address\<close>

text \<open>
  No method adds a second record with an address string the list already has: \<^verbatim>\<open>Put\<close>
  appends only an absent one, \<^verbatim>\<open>Set\<close> leaves every address as it is, and \<^verbatim>\<open>Remove\<close>
  keeps a sublist. A list with pairwise different address strings has at most one
  record of any given one.
\<close>

lemma distinct_at_most_one:
  "distinct (map f xs) \<Longrightarrow> length (filter (\<lambda>y. f y = v) xs) \<le> 1"
proof (induction xs)
  case Nil
  then show ?case by simp
next
  case (Cons a xs)
  show ?case
  proof (cases "f a = v")
    case True
    with Cons.prems have "\<forall>y\<in>set xs. f y \<noteq> v" by (auto simp: image_iff)
    then have "filter (\<lambda>y. f y = v) xs = []" by (rule filter_none)
    with True show ?thesis by simp
  next
    case False
    with Cons show ?thesis by simp
  qed
qed

lemma Addr_Set_merge: "Addr (Set_merge cur miner) = Addr cur"
  by (simp add: Set_merge_fields)

lemma Set_range_addresses:
  "map Addr (miners (snd (Set_range env m miner k))) = map Addr (miners m)"
proof (induction env m miner k rule: Set_range.induct)
  case (1 env m miner k)
  show ?case
  proof (cases "k < length (miners m) \<and>
      address_String env (Addr (miners m ! k)) \<noteq> address_String env (Addr miner)")
    case True
    with "1.IH" show ?thesis by (subst Set_range.simps) simp
  next
    case False
    then show ?thesis
      by (subst Set_range.simps)
         (auto simp: Let_def map_update Addr_Set_merge list_update_same_conv
               split: sum.splits prod.splits option.splits)
  qed
qed

lemma Set_keeps_addresses: "map Addr (miners (snd (Set env m miner))) = map Addr (miners m)"
  by (simp add: Set_def Set_range_addresses)

lemma Put_keeps_distinct:
  assumes "distinct (map (\<lambda>mi. address_String env (Addr mi)) (miners m))"
  shows "distinct (map (\<lambda>mi. address_String env (Addr mi)) (miners (snd (Put env m miner))))"
  using assms
  by (auto simp: Put_def Let_def Has_iff split: sum.splits prod.splits option.splits)

lemma Set_keeps_distinct:
  assumes "distinct (map (\<lambda>mi. address_String env (Addr mi)) (miners m))"
  shows "distinct (map (\<lambda>mi. address_String env (Addr mi)) (miners (snd (Set env m miner))))"
proof -
  have "map (\<lambda>mi. address_String env (Addr mi)) (miners (snd (Set env m miner)))
        = map (address_String env) (map Addr (miners (snd (Set env m miner))))" by simp
  also have "\<dots> = map (address_String env) (map Addr (miners m))"
    by (simp only: Set_keeps_addresses)
  finally show ?thesis using assms by (simp add: comp_def)
qed

lemma Remove_keeps_distinct:
  assumes "distinct (map (\<lambda>mi. address_String env (Addr mi)) (miners m))"
  shows "distinct (map (\<lambda>mi. address_String env (Addr mi)) (miners (snd (Remove env m addrs))))"
  using assms
  by (auto simp: Remove_def Let_def Remove_range_filter distinct_map_filter
           split: sum.splits prod.splits option.splits)

end
